theory Spec2Isabelle
  imports Complex_Main
begin

text \<open>
  A verification of the map pipeline of the cab driver application (\<open>main.js\<close>): the
  deterministic road grid and buildings, the route snapped to the grid, the drawing of
  the map on a canvas, and the camera that keeps the car at the centre of the screen while
  following a clamped GPS drift. Each function of the program is a definition of the
  same name; module-level variables and the canvas are explicit state.
\<close>

section \<open>Numbers and geometry\<close>

text \<open>
  The program is JavaScript: every number is an IEEE double. The model takes a finite
  number to be the real it denotes and arithmetic to be exact; rounding, overflow and
  the printing of numbers into strings are not modelled. The one non-number that the
  modelled functions can produce from finite inputs is \<open>NaN\<close>: reading index 0 of an
  empty array, or a variable that was never assigned, gives \<open>undefined\<close>, and arithmetic
  on \<open>undefined\<close> gives \<open>NaN\<close>. A value that may be \<open>NaN\<close> has type \<open>number\<close>.
\<close>

datatype number = Val real | NaN

text \<open>\<open>Math.abs(a - b) > c\<close>: every comparison with \<open>NaN\<close> is false.\<close>

fun abs_diff_gt :: "number \<Rightarrow> number \<Rightarrow> real \<Rightarrow> bool" where
  "abs_diff_gt (Val a) (Val b) c = (\<bar>a - b\<bar> > c)"
| "abs_diff_gt _ _ c = False"

text \<open>An object \<open>{ x, y }\<close> whose coordinates are finite.\<close>

record point =
  px :: real
  py :: real

text \<open>A point of a route: \<open>{ x, y }\<close> whose coordinates come out of the lattice search.\<close>

record waypoint =
  rx :: number
  ry :: number

text \<open>A road: \<open>{ points, width, main }\<close>.\<close>

record road =
  points :: "point list"
  width :: real
  main :: bool

text \<open>The object \<open>{ roads, hYs, vXs }\<close> that \<open>createFixedRoadGrid\<close> returns.\<close>

record grid =
  grid_roads :: "road list"
  grid_hYs :: "real list"
  grid_vXs :: "real list"

section \<open>Deterministic road grid\<close>

text \<open>
  \<open>createFixedRoadGrid(mapW, mapH)\<close>, lines 66 to 104. Each \<open>forEach((frac, i) => ...)\<close>
  pushes one road per entry, in order; \<open>enumerate 0\<close> pairs each entry with its index.
\<close>

definition createFixedRoadGrid :: "real \<Rightarrow> real \<Rightarrow> grid" where
  "createFixedRoadGrid mapW mapH =
    (let roads = [];
         hYs = [0.06, 0.14, 0.22, 0.30, 0.38, 0.46, 0.54, 0.62, 0.70, 0.78, 0.86, 0.94];
         roads = roads @ map (\<lambda>(i, frac).
                   let y = mapH * frac;
                       isMain = (i mod 3 = 0)
                   in \<lparr>points = [\<lparr>px = - 50, py = y\<rparr>, \<lparr>px = mapW + 50, py = y\<rparr>],
                       width = (if isMain then 8 else 3),
                       main = isMain\<rparr>) (enumerate 0 hYs);
         vXs = [0.08, 0.20, 0.32, 0.44, 0.56, 0.68, 0.80, 0.92];
         roads = roads @ map (\<lambda>(i, frac).
                   let x = mapW * frac;
                       isMain = (i mod 3 = 0)
                   in \<lparr>points = [\<lparr>px = x, py = - 50\<rparr>, \<lparr>px = x, py = mapH + 50\<rparr>],
                       width = (if isMain then 7 else 2.5),
                       main = isMain\<rparr>) (enumerate 0 vXs);
         roads = roads @ [\<lparr>points = [\<lparr>px = mapW * 0.08, py = mapH * 0.08\<rparr>,
                                      \<lparr>px = mapW * 0.55, py = mapH * 0.42\<rparr>],
                            width = 4, main = False\<rparr>];
         roads = roads @ [\<lparr>points = [\<lparr>px = mapW * 0.65, py = mapH * 0.15\<rparr>,
                                      \<lparr>px = mapW * 0.88, py = mapH * 0.65\<rparr>],
                            width = 3.5, main = False\<rparr>]
     in \<lparr>grid_roads = roads, grid_hYs = hYs, grid_vXs = vXs\<rparr>)"

section \<open>Deterministic buildings\<close>

text \<open>
  The template string \<open>hsl(h, s%, l%)\<close> of a building's colour, kept as its three numbers.
\<close>

record hsl =
  hue :: real
  saturation :: real
  lightness :: real

text \<open>A building: \<open>{ x, y, w, h, color, lit }\<close>.\<close>

record building =
  b_x :: real
  b_y :: real
  b_w :: real
  b_h :: real
  b_color :: hsl
  b_lit :: bool

text \<open>
  The remainder operator \<open>%\<close> on integers: the result takes the sign of the dividend.
  The seed is an integer, as it is at both call sites (42 and 77).
\<close>

definition js_rem :: "int \<Rightarrow> int \<Rightarrow> int" where
  "js_rem a b = sgn a * (\<bar>a\<bar> mod \<bar>b\<bar>)"

text \<open>
  The closure \<open>rng\<close> of line 109 updates the captured variable \<open>s\<close> and returns a number;
  the model returns the number together with the new \<open>s\<close>.
\<close>

definition rng :: "int \<Rightarrow> real \<times> int" where
  "rng s = (let s = js_rem (s * 16807) 2147483647 in ((of_int s - 1) / 2147483646, s))"

text \<open>
  The body of the \<open>for\<close> loop of lines 111 to 120: the properties of the object literal
  are evaluated in the order written, so the eight calls of \<open>rng\<close> happen in that order.
\<close>

definition next_building :: "real \<Rightarrow> real \<Rightarrow> int \<Rightarrow> building \<times> int" where
  "next_building mapW mapH s =
    (let (r1, s) = rng s;
         (r2, s) = rng s;
         (r3, s) = rng s;
         (r4, s) = rng s;
         (r5, s) = rng s;
         (r6, s) = rng s;
         (r7, s) = rng s;
         (r8, s) = rng s
     in (\<lparr>b_x = r1 * (mapW + 80) - 40,
          b_y = r2 * (mapH + 80) - 40,
          b_w = 12 + r3 * 50,
          b_h = 12 + r4 * 40,
          b_color = \<lparr>hue = 215 + r5 * 25, saturation = 12 + r6 * 12, lightness = 10 + r7 * 10\<rparr>,
          b_lit = (r8 > 0.65)\<rparr>, s))"

text \<open>The loop \<open>for (let i = 0; i < 110; i++) buildings.push(...)\<close>.\<close>

function buildings_loop :: "nat \<Rightarrow> real \<Rightarrow> real \<Rightarrow> building list \<Rightarrow> int \<Rightarrow> building list" where
  "buildings_loop i mapW mapH buildings s =
    (if i < 110
     then (let (b, s) = next_building mapW mapH s
           in buildings_loop (i + 1) mapW mapH (buildings @ [b]) s)
     else buildings)"
  by pat_completeness auto
termination
  by (relation "measure (\<lambda>(i, mapW, mapH, buildings, s). 110 - i)") auto

declare buildings_loop.simps [simp del]

text \<open>\<open>createFixedBuildings(mapW, mapH, seed)\<close>, lines 106 to 122.\<close>

definition createFixedBuildings :: "real \<Rightarrow> real \<Rightarrow> int \<Rightarrow> building list" where
  "createFixedBuildings mapW mapH seed = buildings_loop 0 mapW mapH [] seed"

section \<open>Route snapped to the road grid\<close>

text \<open>
  The two closures of \<open>buildGridRoute\<close> (lines 128 to 137). \<open>best\<close> starts at the first
  lattice line and \<open>forEach\<close> visits every entry, the first included, replacing \<open>best\<close>
  only by a strictly nearer line. On an empty array \<open>vXs[0] * mapW\<close> is \<open>NaN\<close> and the
  loop body never runs.
\<close>

definition nearestVX :: "real list \<Rightarrow> real \<Rightarrow> real \<Rightarrow> number" where
  "nearestVX vXs mapW targetX =
    (case vXs of
       [] \<Rightarrow> NaN
     | f0 # _ \<Rightarrow>
         Val (fold (\<lambda>f best. if \<bar>f * mapW - targetX\<bar> < \<bar>best - targetX\<bar> then f * mapW else best)
                vXs (f0 * mapW)))"

definition nearestHY :: "real list \<Rightarrow> real \<Rightarrow> real \<Rightarrow> number" where
  "nearestHY hYs mapH targetY =
    (case hYs of
       [] \<Rightarrow> NaN
     | f0 # _ \<Rightarrow>
         Val (fold (\<lambda>f best. if \<bar>f * mapH - targetY\<bar> < \<bar>best - targetY\<bar> then f * mapH else best)
                hYs (f0 * mapH)))"

text \<open>\<open>buildGridRoute(sx, sy, ex, ey, hYs, vXs, mapW, mapH)\<close>, lines 125 to 159.\<close>

definition buildGridRoute ::
  "real \<Rightarrow> real \<Rightarrow> real \<Rightarrow> real \<Rightarrow> real list \<Rightarrow> real list \<Rightarrow> real \<Rightarrow> real \<Rightarrow> waypoint list" where
  "buildGridRoute sx sy ex ey hYs vXs mapW mapH =
    (let route = [\<lparr>rx = Val sx, ry = Val sy\<rparr>];
         vRoad1 = nearestVX vXs mapW sx;
         route = (if abs_diff_gt vRoad1 (Val sx) 3
                  then route @ [\<lparr>rx = vRoad1, ry = Val sy\<rparr>] else route);
         hMid = nearestHY hYs mapH ((sy + ey) * 0.45);
         route = route @ [\<lparr>rx = vRoad1, ry = hMid\<rparr>];
         vRoad2 = nearestVX vXs mapW ex;
         route = route @ [\<lparr>rx = vRoad2, ry = hMid\<rparr>];
         hEnd = nearestHY hYs mapH ey;
         route = (if abs_diff_gt hEnd hMid 20
                  then (let route = route @ [\<lparr>rx = vRoad2, ry = hEnd\<rparr>]
                        in if abs_diff_gt vRoad2 (Val ex) 3
                           then route @ [\<lparr>rx = Val ex, ry = hEnd\<rparr>] else route)
                  else route)
     in route @ [\<lparr>rx = Val ex, ry = Val ey\<rparr>])"

section \<open>The 2D drawing context\<close>

text \<open>
  \<open>drawMap\<close> acts on a \<open>CanvasRenderingContext2D\<close>: it assigns drawing attributes, builds
  the current path and calls painting methods. The context is a record of the attributes
  the program assigns, the current path, the scale set by \<open>ctx.scale\<close> and the pixel
  surface. How a painting method changes the pixels is the browser's business: it is a
  parameter \<open>P\<close> of the model, which receives the operation, the drawing state in force
  and the pixels, and returns the new pixels. For a context \<open>ctx\<close>, \<open>gstate.truncate ctx\<close>
  is its drawing state, that is the context without its surface.
\<close>

datatype paint_style = Color string | HslColor hsl

datatype path_seg =
    MoveTo number number
  | LineTo number number
  | Arc real real real real real
  | Ellipse real real real real real real real

record gstate =
  fillStyle :: paint_style
  strokeStyle :: paint_style
  lineWidth :: real
  lineCap :: string
  lineJoin :: string
  lineDash :: "real list"
  font :: string
  scaling :: "real \<times> real"
  path :: "path_seg list"

record 'px ctx2d = gstate +
  surface :: 'px

datatype draw_op =
    ClearRect real real real real
  | FillRect real real real real
  | StrokeRect real real real real
  | Fill
  | Stroke
  | FillText string real real

type_synonym 'px painter = "draw_op \<Rightarrow> gstate \<Rightarrow> 'px \<Rightarrow> 'px"

definition paint :: "'px painter \<Rightarrow> draw_op \<Rightarrow> 'px ctx2d \<Rightarrow> 'px ctx2d" where
  "paint P op ctx = ctx\<lparr>surface := P op (gstate.truncate ctx) (surface ctx)\<rparr>"

definition clearRect :: "'px painter \<Rightarrow> real \<Rightarrow> real \<Rightarrow> real \<Rightarrow> real \<Rightarrow> 'px ctx2d \<Rightarrow> 'px ctx2d" where
  "clearRect P x0 y0 w h ctx = paint P (ClearRect x0 y0 w h) ctx"

definition fillRect :: "'px painter \<Rightarrow> real \<Rightarrow> real \<Rightarrow> real \<Rightarrow> real \<Rightarrow> 'px ctx2d \<Rightarrow> 'px ctx2d" where
  "fillRect P x0 y0 w h ctx = paint P (FillRect x0 y0 w h) ctx"

definition strokeRect :: "'px painter \<Rightarrow> real \<Rightarrow> real \<Rightarrow> real \<Rightarrow> real \<Rightarrow> 'px ctx2d \<Rightarrow> 'px ctx2d" where
  "strokeRect P x0 y0 w h ctx = paint P (StrokeRect x0 y0 w h) ctx"

definition fill :: "'px painter \<Rightarrow> 'px ctx2d \<Rightarrow> 'px ctx2d" where
  "fill P ctx = paint P Fill ctx"

definition stroke :: "'px painter \<Rightarrow> 'px ctx2d \<Rightarrow> 'px ctx2d" where
  "stroke P ctx = paint P Stroke ctx"

definition fillText :: "'px painter \<Rightarrow> string \<Rightarrow> real \<Rightarrow> real \<Rightarrow> 'px ctx2d \<Rightarrow> 'px ctx2d" where
  "fillText P str x0 y0 ctx = paint P (FillText str x0 y0) ctx"

definition beginPath :: "'px ctx2d \<Rightarrow> 'px ctx2d" where
  "beginPath ctx = ctx\<lparr>path := []\<rparr>"

definition moveTo :: "number \<Rightarrow> number \<Rightarrow> 'px ctx2d \<Rightarrow> 'px ctx2d" where
  "moveTo x0 y0 ctx = ctx\<lparr>path := path ctx @ [MoveTo x0 y0]\<rparr>"

definition lineTo :: "number \<Rightarrow> number \<Rightarrow> 'px ctx2d \<Rightarrow> 'px ctx2d" where
  "lineTo x0 y0 ctx = ctx\<lparr>path := path ctx @ [LineTo x0 y0]\<rparr>"

definition arc :: "real \<Rightarrow> real \<Rightarrow> real \<Rightarrow> real \<Rightarrow> real \<Rightarrow> 'px ctx2d \<Rightarrow> 'px ctx2d" where
  "arc x0 y0 r a0 a1 ctx = ctx\<lparr>path := path ctx @ [Arc x0 y0 r a0 a1]\<rparr>"

definition ellipse ::
  "real \<Rightarrow> real \<Rightarrow> real \<Rightarrow> real \<Rightarrow> real \<Rightarrow> real \<Rightarrow> real \<Rightarrow> 'px ctx2d \<Rightarrow> 'px ctx2d" where
  "ellipse x0 y0 r1 r2 rot a0 a1 ctx = ctx\<lparr>path := path ctx @ [Ellipse x0 y0 r1 r2 rot a0 a1]\<rparr>"

definition setLineDash :: "real list \<Rightarrow> 'px ctx2d \<Rightarrow> 'px ctx2d" where
  "setLineDash segments ctx = ctx\<lparr>lineDash := segments\<rparr>"

text \<open>
  The assignment \<open>ctx.lineWidth = w\<close>: the context keeps its line width when \<open>w\<close> is zero
  or negative.
\<close>

definition set_lineWidth :: "real \<Rightarrow> 'px ctx2d \<Rightarrow> 'px ctx2d" where
  "set_lineWidth w ctx = (if 0 < w then ctx\<lparr>lineWidth := w\<rparr> else ctx)"

text \<open>\<open>ctx.scale(a, b)\<close> multiplies the scale in force.\<close>

definition scale_ctx :: "real \<Rightarrow> real \<Rightarrow> 'px ctx2d \<Rightarrow> 'px ctx2d" where
  "scale_ctx a b ctx = ctx\<lparr>scaling := (fst (scaling ctx) * a, snd (scaling ctx) * b)\<rparr>"

text \<open>The state of a context that has just been created or reset.\<close>

definition default_gstate :: gstate where
  "default_gstate =
    \<lparr>fillStyle = Color ''#000000'', strokeStyle = Color ''#000000'', lineWidth = 1,
     lineCap = ''butt'', lineJoin = ''miter'', lineDash = [], font = ''10px sans-serif'',
     scaling = (1, 1), path = []\<rparr>"

definition fresh_ctx :: "'px \<Rightarrow> 'px ctx2d" where
  "fresh_ctx s = gstate.extend default_gstate (ctx2d.fields s)"

section \<open>Map drawing\<close>

text \<open>A park \<open>{ x, y, r }\<close>, a label \<open>{ text, x, y }\<close> and the \<open>options\<close> object of \<open>drawMap\<close>.
  A property that is absent (\<open>undefined\<close>) is \<open>None\<close>; an absent \<open>showWater\<close> is \<open>False\<close>.
  An array, empty or not, is truthy.\<close>

record park =
  park_x :: real
  park_y :: real
  park_r :: real

record label =
  label_text :: string
  label_x :: real
  label_y :: real

record options =
  showWater :: bool
  parks :: "park list option"
  route :: "waypoint list option"
  dropPin :: "point option"
  pickupPin :: "point option"
  labels :: "label list option"


text \<open>
  Reading \<open>.x\<close> of \<open>undefined\<close> (the first point of an empty \<open>points\<close> or \<open>route\<close> array)
  throws a \<open>TypeError\<close>; the context keeps what was done to it before the throw.
\<close>

datatype js_error = TypeError

text \<open>
  The window lights of a lit building, lines 187 to 191: the inner loop over \<open>wy\<close> and
  the outer loop over \<open>wx\<close>.
\<close>

function window_column :: "'px painter \<Rightarrow> real \<Rightarrow> real \<Rightarrow> real \<Rightarrow> 'px ctx2d \<Rightarrow> 'px ctx2d" where
  "window_column P wx wy ymax ctx =
    (if wy < ymax then window_column P wx (wy + 6) ymax (fillRect P wx wy 3 2.5 ctx) else ctx)"
  by pat_completeness auto
termination
proof (relation "measure (\<lambda>(P, wx, wy, ymax, ctx). nat \<lceil>(ymax - wy) / 6\<rceil>)")
  show "wf (measure (\<lambda>(P :: 'px painter, wx :: real, wy :: real, ymax :: real, ctx :: 'px ctx2d).
                      nat \<lceil>(ymax - wy) / 6\<rceil>))"
    by simp
next
  fix P :: "'px painter" and wx wy ymax :: real and ctx :: "'px ctx2d"
  assume lt: "wy < ymax"
  have e: "(ymax - (wy + 6)) / 6 = (ymax - wy) / 6 - 1"
    by (simp add: field_simps)
  have pos: "0 < \<lceil>(ymax - wy) / 6\<rceil>"
    using lt by simp
  show "((P, wx, wy + 6, ymax, fillRect P wx wy 3 2.5 ctx), (P, wx, wy, ymax, ctx))
          \<in> measure (\<lambda>(P, wx, wy, ymax, ctx). nat \<lceil>(ymax - wy) / 6\<rceil>)"
    using pos by (simp add: e)
qed

declare window_column.simps [simp del]

function window_rows :: "'px painter \<Rightarrow> real \<Rightarrow> real \<Rightarrow> building \<Rightarrow> 'px ctx2d \<Rightarrow> 'px ctx2d" where
  "window_rows P wx xmax b ctx =
    (if wx < xmax
     then window_rows P (wx + 7) xmax b (window_column P wx (b_y b + 3) (b_y b + b_h b - 3) ctx)
     else ctx)"
  by pat_completeness auto
termination
proof (relation "measure (\<lambda>(P, wx, xmax, b, ctx). nat \<lceil>(xmax - wx) / 7\<rceil>)")
  show "wf (measure (\<lambda>(P :: 'px painter, wx :: real, xmax :: real, b :: building, ctx :: 'px ctx2d).
                      nat \<lceil>(xmax - wx) / 7\<rceil>))"
    by simp
next
  fix P :: "'px painter" and wx xmax :: real and b :: building and ctx :: "'px ctx2d"
  assume lt: "wx < xmax"
  have e: "(xmax - (wx + 7)) / 7 = (xmax - wx) / 7 - 1"
    by (simp add: field_simps)
  have pos: "0 < \<lceil>(xmax - wx) / 7\<rceil>"
    using lt by simp
  show "((P, wx + 7, xmax, b, window_column P wx (b_y b + 3) (b_y b + b_h b - 3) ctx),
         (P, wx, xmax, b, ctx))
          \<in> measure (\<lambda>(P, wx, xmax, b, ctx). nat \<lceil>(xmax - wx) / 7\<rceil>)"
    using pos by (simp add: e)
qed

declare window_rows.simps [simp del]

text \<open>The body of \<open>buildings.forEach\<close>, lines 178 to 193.\<close>

definition draw_building :: "'px painter \<Rightarrow> building \<Rightarrow> 'px ctx2d \<Rightarrow> 'px ctx2d" where
  "draw_building P b ctx =
    (let ctx = ctx\<lparr>fillStyle := HslColor (b_color b)\<rparr>;
         ctx = fillRect P (b_x b) (b_y b) (b_w b) (b_h b) ctx;
         ctx = ctx\<lparr>strokeStyle := Color ''rgba(30, 40, 55, 0.5)''\<rparr>;
         ctx = set_lineWidth 0.5 ctx;
         ctx = strokeRect P (b_x b) (b_y b) (b_w b) (b_h b) ctx
     in if b_lit b \<and> b_w b > 22 \<and> b_h b > 18
        then (let ctx = ctx\<lparr>fillStyle := Color ''rgba(255, 200, 80, 0.15)''\<rparr>
              in window_rows P (b_x b + 3) (b_x b + b_w b - 3) b ctx)
        else ctx)"

text \<open>The body of \<open>options.parks.forEach\<close>, lines 197 to 202.\<close>

definition draw_park :: "'px painter \<Rightarrow> park \<Rightarrow> 'px ctx2d \<Rightarrow> 'px ctx2d" where
  "draw_park P p ctx =
    (let ctx = beginPath ctx;
         ctx = arc (park_x p) (park_y p) (park_r p) 0 (pi * 2) ctx;
         ctx = ctx\<lparr>fillStyle := Color ''rgba(15, 55, 25, 0.4)''\<rparr>
     in fill P ctx)"

text \<open>
  \<open>ctx.moveTo(pts[0].x, pts[0].y)\<close> followed by the loop
  \<open>for (let i = 1; i < pts.length; i++) ctx.lineTo(pts[i].x, pts[i].y)\<close>, on a polyline
  that has a first point.
\<close>

definition trace_polyline :: "waypoint \<Rightarrow> waypoint list \<Rightarrow> 'px ctx2d \<Rightarrow> 'px ctx2d" where
  "trace_polyline p0 ps ctx = fold (\<lambda>p. lineTo (rx p) (ry p)) ps (moveTo (rx p0) (ry p0) ctx)"

definition as_waypoint :: "point \<Rightarrow> waypoint" where
  "as_waypoint p = \<lparr>rx = Val (px p), ry = Val (py p)\<rparr>"

text \<open>The body of \<open>roads.forEach\<close>, lines 206 to 226.\<close>

definition draw_road :: "'px painter \<Rightarrow> road \<Rightarrow> 'px ctx2d \<Rightarrow> js_error \<times> 'px ctx2d + 'px ctx2d" where
  "draw_road P r ctx =
    (let ctx = beginPath ctx
     in case points r of
          [] \<Rightarrow> Inl (TypeError, ctx)
        | p0 # ps \<Rightarrow>
           (let ctx = trace_polyline (as_waypoint p0) (map as_waypoint ps) ctx;
                ctx = ctx\<lparr>strokeStyle := Color (if main r then ''rgba(55, 65, 85, 0.95)''
                                                else ''rgba(35, 45, 60, 0.7)'')\<rparr>;
                ctx = set_lineWidth (width r) ctx;
                ctx = ctx\<lparr>lineCap := ''round''\<rparr>;
                ctx = ctx\<lparr>lineJoin := ''round''\<rparr>;
                ctx = stroke P ctx
            in Inr (if main r
                    then (let ctx = setLineDash [6, 10] ctx;
                              ctx = beginPath ctx;
                              ctx = trace_polyline (as_waypoint p0) (map as_waypoint ps) ctx;
                              ctx = ctx\<lparr>strokeStyle := Color ''rgba(90, 100, 120, 0.4)''\<rparr>;
                              ctx = set_lineWidth 1 ctx;
                              ctx = stroke P ctx
                          in setLineDash [] ctx)
                    else ctx)))"

text \<open>\<open>roads.forEach\<close>: a throw in one callback ends the loop and the function.\<close>

fun draw_roads :: "'px painter \<Rightarrow> road list \<Rightarrow> 'px ctx2d \<Rightarrow> js_error \<times> 'px ctx2d + 'px ctx2d" where
  "draw_roads P [] ctx = Inr ctx"
| "draw_roads P (r # rs) ctx =
    (case draw_road P r ctx of Inl e \<Rightarrow> Inl e | Inr ctx \<Rightarrow> draw_roads P rs ctx)"

text \<open>The route line, lines 229 to 244.\<close>

definition draw_route ::
  "'px painter \<Rightarrow> waypoint list option \<Rightarrow> 'px ctx2d \<Rightarrow> js_error \<times> 'px ctx2d + 'px ctx2d" where
  "draw_route P route_opt ctx =
    (case route_opt of
       None \<Rightarrow> Inr ctx
     | Some rp \<Rightarrow>
        (let ctx = beginPath ctx
         in case rp of
              [] \<Rightarrow> Inl (TypeError, ctx)
            | p0 # ps \<Rightarrow>
               (let ctx = trace_polyline p0 ps ctx;
                    ctx = ctx\<lparr>strokeStyle := Color ''rgba(59, 130, 246, 0.12)''\<rparr>;
                    ctx = set_lineWidth 22 ctx;
                    ctx = ctx\<lparr>lineCap := ''round''\<rparr>;
                    ctx = ctx\<lparr>lineJoin := ''round''\<rparr>;
                    ctx = stroke P ctx;
                    ctx = ctx\<lparr>strokeStyle := Color ''#3b82f6''\<rparr>;
                    ctx = set_lineWidth 6 ctx
                in Inr (stroke P ctx))))"

text \<open>A pin, lines 247 to 276: the two differ in radii and colour only.\<close>

definition draw_pin :: "'px painter \<Rightarrow> real \<Rightarrow> real \<Rightarrow> string \<Rightarrow> point \<Rightarrow> 'px ctx2d \<Rightarrow> 'px ctx2d" where
  "draw_pin P outer inner colour p ctx =
    (let ctx = beginPath ctx;
         ctx = arc (px p) (py p) outer 0 (pi * 2) ctx;
         ctx = ctx\<lparr>fillStyle := Color colour\<rparr>;
         ctx = fill P ctx;
         ctx = ctx\<lparr>strokeStyle := Color ''#fff''\<rparr>;
         ctx = set_lineWidth 3 ctx;
         ctx = stroke P ctx;
         ctx = beginPath ctx;
         ctx = arc (px p) (py p) inner 0 (pi * 2) ctx;
         ctx = ctx\<lparr>fillStyle := Color ''#fff''\<rparr>
     in fill P ctx)"

text \<open>The body of \<open>options.labels.forEach\<close>, lines 280 to 284.\<close>

definition draw_label :: "'px painter \<Rightarrow> label \<Rightarrow> 'px ctx2d \<Rightarrow> 'px ctx2d" where
  "draw_label P l ctx =
    (let ctx = ctx\<lparr>font := ''600 11px Inter, sans-serif''\<rparr>;
         ctx = ctx\<lparr>fillStyle := Color ''rgba(200, 200, 220, 0.55)''\<rparr>
     in fillText P (label_text l) (label_x l) (label_y l) ctx)"

text \<open>\<open>drawMap(ctx, mapW, mapH, roads, buildings, options)\<close>, lines 162 to 286.\<close>

definition drawMap ::
  "'px painter \<Rightarrow> 'px ctx2d \<Rightarrow> real \<Rightarrow> real \<Rightarrow> road list \<Rightarrow> building list \<Rightarrow> options
     \<Rightarrow> js_error \<times> 'px ctx2d + 'px ctx2d" where
  "drawMap P ctx mapW mapH roads buildings opts =
    (let ctx = clearRect P 0 0 mapW mapH ctx;
         ctx = ctx\<lparr>fillStyle := Color ''#0d1520''\<rparr>;
         ctx = fillRect P 0 0 mapW mapH ctx;
         ctx = (if showWater opts
                then (let ctx = ctx\<lparr>fillStyle := Color ''rgba(8, 25, 50, 0.5)''\<rparr>;
                          ctx = beginPath ctx;
                          ctx = ellipse (mapW + 60) (mapH * 0.5) 180 500 0 0 (pi * 2) ctx
                      in fill P ctx)
                else ctx);
         ctx = fold (draw_building P) buildings ctx;
         ctx = (case parks opts of None \<Rightarrow> ctx | Some ps \<Rightarrow> fold (draw_park P) ps ctx)
     in case draw_roads P roads ctx of
          Inl e \<Rightarrow> Inl e
        | Inr ctx \<Rightarrow>
           (case draw_route P (route opts) ctx of
              Inl e \<Rightarrow> Inl e
            | Inr ctx \<Rightarrow>
               (let ctx = (case dropPin opts of None \<Rightarrow> ctx
                           | Some p \<Rightarrow> draw_pin P 12 5 ''#ff4444'' p ctx);
                    ctx = (case pickupPin opts of None \<Rightarrow> ctx
                           | Some p \<Rightarrow> draw_pin P 10 4 ''#00d26a'' p ctx)
                in Inr (case labels opts of None \<Rightarrow> ctx
                        | Some ls \<Rightarrow> fold (draw_label P) ls ctx))))"

section \<open>Navigation map state\<close>

definition ZOOM :: real where
  "ZOOM = 2.2"

definition MAP_SCALE :: real where
  "MAP_SCALE = 1200"

text \<open>The object \<open>{ lat, lng }\<close> kept in \<open>gpsBaseLatLng\<close>.\<close>

record latlng =
  base_lat :: real
  base_lng :: real

text \<open>
  The value of \<open>style.transform\<close>, the string \<open>translate(tx px, ty px) scale(ZOOM)\<close>, kept as
  its three numbers.
\<close>

record css_transform =
  translate_x :: number
  translate_y :: number
  scale_factor :: real

text \<open>
  The canvas element \<open>mapCanvas\<close>: its \<open>width\<close> and \<open>height\<close> attributes, the properties
  of its \<open>style\<close> that the program assigns, and its 2D context.
\<close>

record 'px canvas =
  canvas_width :: real
  canvas_height :: real
  style_width :: "real option"
  style_height :: "real option"
  style_transform :: "css_transform option"
  style_transformOrigin :: "string option"
  canvas_ctx :: "'px ctx2d"

text \<open>\<open>navCtx\<close> and \<open>mapTransformEl\<close> hold references; the one element they ever refer to
  is \<open>mapCanvas\<close>.\<close>

datatype element_ref = MapCanvas

text \<open>The module-level variables (lines 28 to 30 and 358 to 360) and the canvas element.
  \<open>None\<close> is \<open>null\<close> or \<open>undefined\<close>.\<close>

record 'px app_state =
  gpsBaseLatLng :: "latlng option"
  gpsOffsetX :: real
  gpsOffsetY :: real
  navCtx :: "element_ref option"
  screenW :: "real option"
  screenH :: "real option"
  currentCarPos :: point
  mapTransformEl :: "element_ref option"
  mapCanvas :: "'px canvas"

definition initial_state :: "'px canvas \<Rightarrow> 'px app_state" where
  "initial_state cv =
    \<lparr>gpsBaseLatLng = None, gpsOffsetX = 0, gpsOffsetY = 0, navCtx = None,
     screenW = None, screenH = None, currentCarPos = \<lparr>px = 0, py = 0\<rparr>,
     mapTransformEl = None, mapCanvas = cv\<rparr>"

text \<open>
  \<open>updateMapTransform()\<close>, lines 362 to 371. \<open>screenW / 2\<close> is \<open>NaN\<close> while \<open>screenW\<close> is
  \<open>undefined\<close>.
\<close>

definition updateMapTransform :: "'px app_state \<Rightarrow> 'px app_state" where
  "updateMapTransform st =
    (case mapTransformEl st of
       None \<Rightarrow> st
     | Some MapCanvas \<Rightarrow>
        (let tx = (case screenW st of
                     None \<Rightarrow> NaN
                   | Some w \<Rightarrow> Val ((w / 2) - (px (currentCarPos st) * ZOOM) + (gpsOffsetX st)));
             ty = (case screenH st of
                     None \<Rightarrow> NaN
                   | Some h \<Rightarrow> Val ((h / 2) - (py (currentCarPos st) * ZOOM) + (gpsOffsetY st)))
         in st\<lparr>mapCanvas := (mapCanvas st)
                 \<lparr>style_transform := Some \<lparr>translate_x = tx, translate_y = ty, scale_factor = ZOOM\<rparr>,
                  style_transformOrigin := Some ''0 0''\<rparr>\<rparr>))"

text \<open>
  The success callback that \<open>initGPSTracking\<close> hands to \<open>watchPosition\<close>, lines 36 to 58,
  called with \<open>pos.coords.latitude\<close> and \<open>pos.coords.longitude\<close>.
\<close>

definition watchPosition_success :: "real \<Rightarrow> real \<Rightarrow> 'px app_state \<Rightarrow> 'px app_state" where
  "watchPosition_success lat lng st =
    (case gpsBaseLatLng st of
       None \<Rightarrow> st\<lparr>gpsBaseLatLng := Some \<lparr>base_lat = lat, base_lng = lng\<rparr>\<rparr>
     | Some base \<Rightarrow>
        (let dLat = (lat - base_lat base) * 111320;
             dLng = (lng - base_lng base) * 111320 * cos (lat * pi / 180);
             st = st\<lparr>gpsOffsetX := dLng * 3\<rparr>;
             st = st\<lparr>gpsOffsetY := - dLat * 3\<rparr>;
             st = st\<lparr>gpsOffsetX := max (- 100) (min 100 (gpsOffsetX st))\<rparr>;
             st = st\<lparr>gpsOffsetY := max (- 150) (min 150 (gpsOffsetY st))\<rparr>
         in updateMapTransform st))"

text \<open>
  What \<open>renderNavRoute\<close> reads from the page: \<open>window.devicePixelRatio\<close> and the client
  size of the canvas's parent element.
\<close>

record dom_env =
  devicePixelRatio :: "real option"
  parent_clientWidth :: real
  parent_clientHeight :: real

text \<open>
  Assigning the \<open>width\<close> or \<open>height\<close> of a canvas gives it a new bitmap and resets its
  context to the default state. \<open>blank w h\<close> is the bitmap the browser allocates.
\<close>

definition set_canvas_width :: "(real \<Rightarrow> real \<Rightarrow> 'px) \<Rightarrow> real \<Rightarrow> 'px canvas \<Rightarrow> 'px canvas" where
  "set_canvas_width blank w cv =
    cv\<lparr>canvas_width := w, canvas_ctx := fresh_ctx (blank w (canvas_height cv))\<rparr>"

definition set_canvas_height :: "(real \<Rightarrow> real \<Rightarrow> 'px) \<Rightarrow> real \<Rightarrow> 'px canvas \<Rightarrow> 'px canvas" where
  "set_canvas_height blank h cv =
    cv\<lparr>canvas_height := h, canvas_ctx := fresh_ctx (blank (canvas_width cv) h)\<rparr>"

text \<open>\<open>renderNavRoute(routeStart, routeEnd, labels)\<close>, lines 373 to 420.\<close>

definition renderNavRoute ::
  "'px painter \<Rightarrow> (real \<Rightarrow> real \<Rightarrow> 'px) \<Rightarrow> dom_env \<Rightarrow> point \<Rightarrow> point \<Rightarrow> label list option
     \<Rightarrow> 'px app_state \<Rightarrow> js_error \<times> 'px app_state + 'px app_state" where
  "renderNavRoute P blank env routeStart routeEnd lbls st =
    (let dpr = (case devicePixelRatio env of None \<Rightarrow> 1 | Some d \<Rightarrow> if d = 0 then 1 else d);
         st = st\<lparr>screenW := Some (parent_clientWidth env)\<rparr>;
         st = st\<lparr>screenH := Some (parent_clientHeight env)\<rparr>;
         mapW = MAP_SCALE;
         mapH = MAP_SCALE;
         st = st\<lparr>mapCanvas := set_canvas_width blank (mapW * dpr) (mapCanvas st)\<rparr>;
         st = st\<lparr>mapCanvas := set_canvas_height blank (mapH * dpr) (mapCanvas st)\<rparr>;
         st = st\<lparr>mapCanvas := (mapCanvas st)\<lparr>style_width := Some mapW\<rparr>\<rparr>;
         st = st\<lparr>mapCanvas := (mapCanvas st)\<lparr>style_height := Some mapH\<rparr>\<rparr>;
         st = st\<lparr>navCtx := Some MapCanvas\<rparr>;
         st = st\<lparr>mapCanvas := (mapCanvas st)
                 \<lparr>canvas_ctx := scale_ctx dpr dpr (canvas_ctx (mapCanvas st))\<rparr>\<rparr>;
         grid = createFixedRoadGrid mapW mapH;
         buildings = createFixedBuildings mapW mapH 77;
         route = buildGridRoute (px routeStart) (py routeStart) (px routeEnd) (py routeEnd)
                   (grid_hYs grid) (grid_vXs grid) mapW mapH
     in case drawMap P (canvas_ctx (mapCanvas st)) mapW mapH (grid_roads grid) buildings
               \<lparr>showWater = True,
                parks = Some [\<lparr>park_x = mapW * 0.25, park_y = mapH * 0.35, park_r = 30\<rparr>,
                              \<lparr>park_x = mapW * 0.7, park_y = mapH * 0.55, park_r = 25\<rparr>],
                route = Some route,
                dropPin = Some routeEnd,
                pickupPin = None,
                labels = lbls\<rparr> of
          Inl (e, ctx) \<Rightarrow> Inl (e, st\<lparr>mapCanvas := (mapCanvas st)\<lparr>canvas_ctx := ctx\<rparr>\<rparr>)
        | Inr ctx \<Rightarrow>
           (let st = st\<lparr>mapCanvas := (mapCanvas st)\<lparr>canvas_ctx := ctx\<rparr>\<rparr>;
                st = st\<lparr>currentCarPos := \<lparr>px = px routeStart, py = py routeStart\<rparr>\<rparr>;
                st = st\<lparr>mapTransformEl := Some MapCanvas\<rparr>;
                st = st\<lparr>gpsBaseLatLng := None\<rparr>;
                st = st\<lparr>gpsOffsetX := 0\<rparr>;
                st = st\<lparr>gpsOffsetY := 0\<rparr>
            in Inr (updateMapTransform st)))"

section \<open>Notions used to state the properties\<close>

text \<open>
  The lattice line of \<open>ls\<close> nearest to \<open>t\<close> by absolute distance, ties resolved to the first
  candidate in lattice order: \<open>i\<close> is the least index whose line is at least as near as
  every other line.
\<close>

definition first_nearest_at :: "real list \<Rightarrow> real \<Rightarrow> nat \<Rightarrow> bool" where
  "first_nearest_at ls t i =
    (i < length ls \<and> (\<forall>j \<in> {..<length ls}. \<bar>ls ! i - t\<bar> \<le> \<bar>ls ! j - t\<bar>)
       \<and> (\<forall>j \<in> {..<i}. \<bar>ls ! i - t\<bar> < \<bar>ls ! j - t\<bar>))"

definition nearest_first :: "real list \<Rightarrow> real \<Rightarrow> real \<Rightarrow> bool" where
  "nearest_first ls t v = (\<exists>i \<in> {..<length ls}. first_nearest_at ls t i \<and> ls ! i = v)"

text \<open>A coordinate matches a lattice line within \<open>1e-6\<close>; \<open>NaN\<close> matches nothing.\<close>

definition within_eps :: "number \<Rightarrow> real \<Rightarrow> bool" where
  "within_eps n l = (case n of Val v \<Rightarrow> \<bar>v - l\<bar> \<le> 1 / 10 ^ 6 | NaN \<Rightarrow> False)"

text \<open>
  A route point lies on the lattice: its x matches a vertical line \<open>f * mapW\<close> or its y
  matches a horizontal line \<open>f * mapH\<close>.
\<close>

definition on_lattice :: "real list \<Rightarrow> real list \<Rightarrow> real \<Rightarrow> real \<Rightarrow> waypoint \<Rightarrow> bool" where
  "on_lattice hYs vXs mapW mapH p =
    ((\<exists>f \<in> set vXs. within_eps (rx p) (f * mapW)) \<or> (\<exists>f \<in> set hYs. within_eps (ry p) (f * mapH)))"




text \<open>
  The axis-aligned segment of the lattice line at fraction \<open>fr\<close> with index \<open>i\<close>: it spans
  the extent with 50 units of overhang, and every third line is a main road.
\<close>

definition horizontal_road :: "real \<Rightarrow> real \<Rightarrow> real \<Rightarrow> nat \<Rightarrow> road" where
  "horizontal_road mapW mapH fr i =
     \<lparr>points = [\<lparr>px = - 50, py = mapH * fr\<rparr>, \<lparr>px = mapW + 50, py = mapH * fr\<rparr>],
      width = (if i mod 3 = 0 then 8 else 3), main = (i mod 3 = 0)\<rparr>"

definition vertical_road :: "real \<Rightarrow> real \<Rightarrow> real \<Rightarrow> nat \<Rightarrow> road" where
  "vertical_road mapW mapH fr i =
     \<lparr>points = [\<lparr>px = mapW * fr, py = - 50\<rparr>, \<lparr>px = mapW * fr, py = mapH + 50\<rparr>],
      width = (if i mod 3 = 0 then 7 else 2.5), main = (i mod 3 = 0)\<rparr>"


text \<open>The offset computed from a position before it is clamped, lines 45 to 50.\<close>

definition raw_drift :: "latlng \<Rightarrow> real \<Rightarrow> real \<Rightarrow> real \<times> real" where
  "raw_drift base lat lng =
    ((lng - base_lng base) * 111320 * cos (lat * pi / 180) * 3,
     - ((lat - base_lat base) * 111320) * 3)"

definition drift_in_bounds :: "'px app_state \<Rightarrow> bool" where
  "drift_in_bounds st =
    (- 100 \<le> gpsOffsetX st \<and> gpsOffsetX st \<le> 100 \<and> - 150 \<le> gpsOffsetY st \<and> gpsOffsetY st \<le> 150)"




text \<open>A canvas element as the page creates it: 300 by 150, no style assigned.\<close>

definition new_canvas :: "'px \<Rightarrow> 'px canvas" where
  "new_canvas s =
    \<lparr>canvas_width = 300, canvas_height = 150, style_width = None, style_height = None,
     style_transform = None, style_transformOrigin = None, canvas_ctx = fresh_ctx s\<rparr>"





section \<open>The lattice search\<close>

lemma first_nearest_at_snoc:
  assumes "first_nearest_at pre t i"
  shows "first_nearest_at (pre @ [l]) t (if \<bar>l - t\<bar> < \<bar>pre ! i - t\<bar> then length pre else i)"
proof (cases "\<bar>l - t\<bar> < \<bar>pre ! i - t\<bar>")
  case True
  have "\<bar>l - t\<bar> < \<bar>pre ! j - t\<bar>" if "j < length pre" for j
  proof -
    have "\<bar>pre ! i - t\<bar> \<le> \<bar>pre ! j - t\<bar>"
      using assms that by (simp add: first_nearest_at_def)
    with True show ?thesis by linarith
  qed
  then show ?thesis
    using True by (auto simp: first_nearest_at_def nth_append less_Suc_eq intro: less_imp_le)
next
  case False
  then show ?thesis
    using assms by (auto simp: first_nearest_at_def nth_append less_Suc_eq)
qed

text \<open>
  The loop invariant of \<open>forEach\<close>: \<open>best\<close> is the first nearest line among those visited.
\<close>

lemma fold_nearest:
  assumes "first_nearest_at pre t i" and "b = pre ! i"
  shows "nearest_first (pre @ map (\<lambda>f. f * W) fs) t
           (fold (\<lambda>f best. if \<bar>f * W - t\<bar> < \<bar>best - t\<bar> then f * W else best) fs b)"
  using assms
proof (induction fs arbitrary: pre i b)
  case Nil
  then show ?case
    by (auto simp: nearest_first_def first_nearest_at_def)
next
  case (Cons f fs)
  let ?i' = "if \<bar>f * W - t\<bar> < \<bar>pre ! i - t\<bar> then length pre else i"
  have step: "first_nearest_at (pre @ [f * W]) t ?i'"
    by (rule first_nearest_at_snoc [OF Cons.prems(1)])
  have i_lt: "i < length pre"
    using Cons.prems(1) by (simp add: first_nearest_at_def)
  have b': "(if \<bar>f * W - t\<bar> < \<bar>b - t\<bar> then f * W else b) = (pre @ [f * W]) ! ?i'"
    using Cons.prems(2) i_lt by (simp add: nth_append)
  from Cons.IH [OF step b'] show ?case by simp
qed

lemma fold_nearest_start:
  "nearest_first (f0 * W # map (\<lambda>f. f * W) fs) t
     (fold (\<lambda>f best. if \<bar>f * W - t\<bar> < \<bar>best - t\<bar> then f * W else best) fs (f0 * W))"
proof -
  have "first_nearest_at [f0 * W] t 0"
    by (simp add: first_nearest_at_def)
  from fold_nearest [OF this, of "f0 * W" W fs] show ?thesis by simp
qed

lemma nearestVX_nearest:
  "vXs \<noteq> [] \<Longrightarrow> \<exists>v. nearestVX vXs mapW t = Val v \<and> nearest_first (map (\<lambda>f. f * mapW) vXs) t v"
  by (cases vXs) (simp_all add: nearestVX_def fold_nearest_start)

lemma nearestHY_nearest:
  "hYs \<noteq> [] \<Longrightarrow> \<exists>v. nearestHY hYs mapH t = Val v \<and> nearest_first (map (\<lambda>f. f * mapH) hYs) t v"
  by (cases hYs) (simp_all add: nearestHY_def fold_nearest_start)

lemma nearest_first_mem: "nearest_first ls t v \<Longrightarrow> v \<in> set ls"
  by (auto simp: nearest_first_def)

lemma nearestVX_line:
  assumes "vXs \<noteq> []"
  shows "\<exists>f \<in> set vXs. nearestVX vXs mapW t = Val (f * mapW)"
proof -
  from nearestVX_nearest [OF assms] obtain v
    where "nearestVX vXs mapW t = Val v" and "nearest_first (map (\<lambda>f. f * mapW) vXs) t v"
    by blast
  then show ?thesis
    by (auto dest!: nearest_first_mem)
qed

lemma nearestHY_line:
  assumes "hYs \<noteq> []"
  shows "\<exists>f \<in> set hYs. nearestHY hYs mapH t = Val (f * mapH)"
proof -
  from nearestHY_nearest [OF assms] obtain v
    where "nearestHY hYs mapH t = Val v" and "nearest_first (map (\<lambda>f. f * mapH) hYs) t v"
    by blast
  then show ?thesis
    by (auto dest!: nearest_first_mem)
qed

lemma on_lattice_x:
  "f \<in> set vXs \<Longrightarrow> on_lattice hYs vXs mapW mapH \<lparr>rx = Val (f * mapW), ry = b\<rparr>"
  unfolding on_lattice_def by (rule disjI1, rule bexI [of _ f]) (simp_all add: within_eps_def)

lemma on_lattice_y:
  "f \<in> set hYs \<Longrightarrow> on_lattice hYs vXs mapW mapH \<lparr>rx = a, ry = Val (f * mapH)\<rparr>"
  unfolding on_lattice_def by (rule disjI2, rule bexI [of _ f]) (simp_all add: within_eps_def)

lemma grid_lines:
  "grid_hYs (createFixedRoadGrid mapW mapH)
     = [0.06, 0.14, 0.22, 0.30, 0.38, 0.46, 0.54, 0.62, 0.70, 0.78, 0.86, 0.94]"
  "grid_vXs (createFixedRoadGrid mapW mapH) = [0.08, 0.20, 0.32, 0.44, 0.56, 0.68, 0.80, 0.92]"
  by (simp_all add: createFixedRoadGrid_def Let_def)

lemma grid_lines_nonempty:
  "grid_hYs (createFixedRoadGrid mapW mapH) \<noteq> []"
  "grid_vXs (createFixedRoadGrid mapW mapH) \<noteq> []"
  by (simp_all add: grid_lines)

section \<open>Properties of the route\<close>

text \<open>
  C1, as amended. The route always has between 2 and 7 points: the start, at most one
  snap waypoint, the two waypoints on \<open>hMid\<close>, at most two waypoints of the second jog,
  and the end.
\<close>

theorem route_length_bound:
  "2 \<le> length (buildGridRoute sx sy ex ey hYs vXs mapW mapH)
   \<and> length (buildGridRoute sx sy ex ey hYs vXs mapW mapH) \<le> 7"
  by (simp add: buildGridRoute_def Let_def)

text \<open>
  C1 as stated (between 2 and 6 points) fails on the first route the program draws: on
  the 1200 by 1200 grid the route from (580, 850) to (260, 120) has 7 points.
\<close>

theorem route_length_counterexample:
  "\<not> (2 \<le> length (buildGridRoute 580 850 260 120 (grid_hYs (createFixedRoadGrid 1200 1200))
                     (grid_vXs (createFixedRoadGrid 1200 1200)) 1200 1200)
      \<and> length (buildGridRoute 580 850 260 120 (grid_hYs (createFixedRoadGrid 1200 1200))
                     (grid_vXs (createFixedRoadGrid 1200 1200)) 1200 1200) \<le> 6)"
  by (simp add: buildGridRoute_def createFixedRoadGrid_def nearestVX_def nearestHY_def Let_def)

text \<open>
  C2. For a grid with lattice lines, the first point of the route is the requested start,
  the last point is the requested end, and every interior point has an x that matches a
  vertical lattice line or a y that matches a horizontal lattice line within \<open>1e-6\<close>.
\<close>

theorem route_snapping:
  assumes "hYs \<noteq> []" and "vXs \<noteq> []"
  shows "hd (buildGridRoute sx sy ex ey hYs vXs mapW mapH) = \<lparr>rx = Val sx, ry = Val sy\<rparr>
       \<and> last (buildGridRoute sx sy ex ey hYs vXs mapW mapH) = \<lparr>rx = Val ex, ry = Val ey\<rparr>
       \<and> (\<forall>p \<in> set (butlast (tl (buildGridRoute sx sy ex ey hYs vXs mapW mapH))).
             on_lattice hYs vXs mapW mapH p)"
proof -
  obtain f1 where f1: "f1 \<in> set vXs" "nearestVX vXs mapW sx = Val (f1 * mapW)"
    using nearestVX_line [OF assms(2)] by blast
  obtain f2 where f2: "f2 \<in> set vXs" "nearestVX vXs mapW ex = Val (f2 * mapW)"
    using nearestVX_line [OF assms(2)] by blast
  obtain g1 where g1: "g1 \<in> set hYs" "nearestHY hYs mapH ((sy + ey) * 0.45) = Val (g1 * mapH)"
    using nearestHY_line [OF assms(1)] by blast
  obtain g2 where g2: "g2 \<in> set hYs" "nearestHY hYs mapH ey = Val (g2 * mapH)"
    using nearestHY_line [OF assms(1)] by blast
  show ?thesis
    using f1 f2 g1 g2
    by (simp add: buildGridRoute_def Let_def on_lattice_x on_lattice_y)
qed

theorem route_snapping_witness:
  "grid_hYs (createFixedRoadGrid 1200 1200) \<noteq> [] \<and> grid_vXs (createFixedRoadGrid 1200 1200) \<noteq> []
   \<and> hd (buildGridRoute 580 850 260 120 (grid_hYs (createFixedRoadGrid 1200 1200))
           (grid_vXs (createFixedRoadGrid 1200 1200)) 1200 1200) = \<lparr>rx = Val 580, ry = Val 850\<rparr>
   \<and> last (buildGridRoute 580 850 260 120 (grid_hYs (createFixedRoadGrid 1200 1200))
           (grid_vXs (createFixedRoadGrid 1200 1200)) 1200 1200) = \<lparr>rx = Val 260, ry = Val 120\<rparr>
   \<and> on_lattice (grid_hYs (createFixedRoadGrid 1200 1200)) (grid_vXs (createFixedRoadGrid 1200 1200))
        1200 1200 \<lparr>rx = Val 260, ry = Val 72\<rparr>
   \<and> \<lparr>rx = Val 260, ry = Val 72\<rparr>
        \<in> set (butlast (tl (buildGridRoute 580 850 260 120 (grid_hYs (createFixedRoadGrid 1200 1200))
           (grid_vXs (createFixedRoadGrid 1200 1200)) 1200 1200)))"
proof -
  let ?h = "grid_hYs (createFixedRoadGrid 1200 1200)"
  let ?v = "grid_vXs (createFixedRoadGrid 1200 1200)"
  have h: "?h \<noteq> []" and v: "?v \<noteq> []"
    by (rule grid_lines_nonempty)+
  note t = route_snapping [OF h v, of 580 850 260 120 1200 1200]
  have m: "\<lparr>rx = Val 260, ry = Val 72\<rparr> \<in> set (butlast (tl (buildGridRoute 580 850 260 120 ?h ?v 1200 1200)))"
    by (simp add: buildGridRoute_def grid_lines nearestVX_def nearestHY_def Let_def)
  from t m have "on_lattice ?h ?v 1200 1200 \<lparr>rx = Val 260, ry = Val 72\<rparr>"
    by blast
  with t h v m show ?thesis
    by blast
qed



text \<open>
  C10. The waypoints \<open>(vRoad1, hMid)\<close> and \<open>(vRoad2, hMid)\<close> are in every route, one after
  the other, at index 1 and 2 (2 and 3 after a snap waypoint), so a route has at least 4
  points; when both ends snap to the same vertical line the two are equal, and the route
  holds the same point twice in a row.
\<close>

theorem mid_waypoints_unconditional:
  "(let r = buildGridRoute sx sy ex ey hYs vXs mapW mapH;
        vRoad1 = nearestVX vXs mapW sx;
        vRoad2 = nearestVX vXs mapW ex;
        hMid = nearestHY hYs mapH ((sy + ey) * 0.45);
        k = (if abs_diff_gt vRoad1 (Val sx) 3 then 2 else 1)
    in 4 \<le> length r \<and> Suc k < length r
       \<and> r ! k = \<lparr>rx = vRoad1, ry = hMid\<rparr>
       \<and> r ! Suc k = \<lparr>rx = vRoad2, ry = hMid\<rparr>
       \<and> (vRoad1 = vRoad2 \<longrightarrow> r ! k = r ! Suc k))"
  by (simp add: buildGridRoute_def Let_def nth_append)

theorem mid_waypoints_witness:
  "nearestVX (grid_vXs (createFixedRoadGrid 1200 1200)) 1200 530
     = nearestVX (grid_vXs (createFixedRoadGrid 1200 1200)) 1200 520
   \<and> buildGridRoute 530 850 520 120 (grid_hYs (createFixedRoadGrid 1200 1200))
        (grid_vXs (createFixedRoadGrid 1200 1200)) 1200 1200 ! 1
     = buildGridRoute 530 850 520 120 (grid_hYs (createFixedRoadGrid 1200 1200))
        (grid_vXs (createFixedRoadGrid 1200 1200)) 1200 1200 ! 2
   \<and> buildGridRoute 530 850 520 120 (grid_hYs (createFixedRoadGrid 1200 1200))
        (grid_vXs (createFixedRoadGrid 1200 1200)) 1200 1200 ! 1 = \<lparr>rx = Val 528, ry = Val 456\<rparr>"
proof -
  let ?h = "grid_hYs (createFixedRoadGrid 1200 1200)"
  let ?v = "grid_vXs (createFixedRoadGrid 1200 1200)"
  have v1: "nearestVX ?v 1200 530 = Val 528"
    by (simp add: grid_lines nearestVX_def)
  have v2: "nearestVX ?v 1200 520 = Val 528"
    by (simp add: grid_lines nearestVX_def)
  have hm: "nearestHY ?h 1200 ((850 + 120) * 0.45) = Val 456"
    by (simp add: grid_lines nearestHY_def)
  from mid_waypoints_unconditional [of 530 850 520 120 ?h ?v 1200 1200]
  show ?thesis
    unfolding Let_def v1 v2 hm by (simp add: numeral_2_eq_2)
qed

section \<open>Properties of the generated map\<close>








lemma grid_roads_list:
  "grid_roads (createFixedRoadGrid mapW mapH) =
     map (\<lambda>(i, fr). horizontal_road mapW mapH fr i)
         (enumerate 0 (grid_hYs (createFixedRoadGrid mapW mapH)))
     @ map (\<lambda>(i, fr). vertical_road mapW mapH fr i)
         (enumerate 0 (grid_vXs (createFixedRoadGrid mapW mapH)))
     @ [\<lparr>points = [\<lparr>px = mapW * 0.08, py = mapH * 0.08\<rparr>, \<lparr>px = mapW * 0.55, py = mapH * 0.42\<rparr>],
         width = 4, main = False\<rparr>,
        \<lparr>points = [\<lparr>px = mapW * 0.65, py = mapH * 0.15\<rparr>, \<lparr>px = mapW * 0.88, py = mapH * 0.65\<rparr>],
         width = 3.5, main = False\<rparr>]"
  by (simp add: createFixedRoadGrid_def Let_def horizontal_road_def vertical_road_def)

lemma grid_horizontal:
  "\<forall>i \<in> {..<12}. grid_roads (createFixedRoadGrid mapW mapH) ! i
      = horizontal_road mapW mapH (grid_hYs (createFixedRoadGrid mapW mapH) ! i) i"
  unfolding grid_roads_list unfolding grid_lines
  apply (simp add: lessThan_nat_numeral lessThan_Suc nth_append)
  apply (simp add: eval_nat_numeral)
  done

lemma grid_vertical:
  "\<forall>i \<in> {..<8}. grid_roads (createFixedRoadGrid mapW mapH) ! (12 + i)
      = vertical_road mapW mapH (grid_vXs (createFixedRoadGrid mapW mapH) ! i) i"
  unfolding grid_roads_list unfolding grid_lines
  apply (simp add: lessThan_nat_numeral lessThan_Suc nth_append)
  apply (simp add: eval_nat_numeral)
  done

lemma grid_diagonals:
  "length (grid_roads (createFixedRoadGrid mapW mapH)) = 22"
  "grid_roads (createFixedRoadGrid mapW mapH) ! 20 =
     \<lparr>points = [\<lparr>px = mapW * 0.08, py = mapH * 0.08\<rparr>, \<lparr>px = mapW * 0.55, py = mapH * 0.42\<rparr>],
      width = 4, main = False\<rparr>"
  "grid_roads (createFixedRoadGrid mapW mapH) ! 21 =
     \<lparr>points = [\<lparr>px = mapW * 0.65, py = mapH * 0.15\<rparr>, \<lparr>px = mapW * 0.88, py = mapH * 0.65\<rparr>],
      width = 3.5, main = False\<rparr>"
  unfolding grid_roads_list unfolding grid_lines
  by (simp_all add: nth_append)

lemma grid_distinct:
  assumes "0 < mapW" and "0 < mapH"
  shows "distinct (map points (grid_roads (createFixedRoadGrid mapW mapH)))"
  using assms
  by (simp add: createFixedRoadGrid_def Let_def)

text \<open>
  C5. \<open>createFixedRoadGrid\<close> is a function of the extent alone. It returns the 12
  horizontal and the 8 vertical fractions and 22 roads: road \<open>i\<close> (below 12) is the
  horizontal segment of line \<open>i\<close>, at height \<open>mapH\<close> times its fraction, road \<open>12 + i\<close>
  (\<open>i\<close> below 8) is the vertical segment of line \<open>i\<close>, at \<open>mapW\<close> times its fraction, a line
  being a main road exactly when its index is a multiple of 3, and roads 20 and 21 are the
  two diagonals scaled by the extent. For a positive extent the 22 roads have pairwise
  different end points, so each lattice line is the line of exactly one road.
\<close>

theorem road_grid_structure:
  "grid_hYs (createFixedRoadGrid mapW mapH)
     = [0.06, 0.14, 0.22, 0.30, 0.38, 0.46, 0.54, 0.62, 0.70, 0.78, 0.86, 0.94]
   \<and> grid_vXs (createFixedRoadGrid mapW mapH) = [0.08, 0.20, 0.32, 0.44, 0.56, 0.68, 0.80, 0.92]
   \<and> length (grid_hYs (createFixedRoadGrid mapW mapH)) = 12
   \<and> length (grid_vXs (createFixedRoadGrid mapW mapH)) = 8
   \<and> length (grid_roads (createFixedRoadGrid mapW mapH)) = 22
   \<and> (\<forall>i \<in> {..<12}. grid_roads (createFixedRoadGrid mapW mapH) ! i
         = horizontal_road mapW mapH (grid_hYs (createFixedRoadGrid mapW mapH) ! i) i)
   \<and> (\<forall>i \<in> {..<8}. grid_roads (createFixedRoadGrid mapW mapH) ! (12 + i)
         = vertical_road mapW mapH (grid_vXs (createFixedRoadGrid mapW mapH) ! i) i)
   \<and> grid_roads (createFixedRoadGrid mapW mapH) ! 20 =
       \<lparr>points = [\<lparr>px = mapW * 0.08, py = mapH * 0.08\<rparr>, \<lparr>px = mapW * 0.55, py = mapH * 0.42\<rparr>],
        width = 4, main = False\<rparr>
   \<and> grid_roads (createFixedRoadGrid mapW mapH) ! 21 =
       \<lparr>points = [\<lparr>px = mapW * 0.65, py = mapH * 0.15\<rparr>, \<lparr>px = mapW * 0.88, py = mapH * 0.65\<rparr>],
        width = 3.5, main = False\<rparr>
   \<and> (0 < mapW \<and> 0 < mapH \<longrightarrow> distinct (map points (grid_roads (createFixedRoadGrid mapW mapH))))"
  using grid_lines [of mapW mapH] grid_horizontal [of mapW mapH] grid_vertical [of mapW mapH]
    grid_diagonals [of mapW mapH] grid_distinct [of mapW mapH]
  by simp

theorem road_grid_structure_witness:
  "(0::real) < 1200 \<and> (3::nat) \<in> {..<12} \<and> (1::nat) \<in> {..<8}
   \<and> grid_roads (createFixedRoadGrid 1200 1200) ! 3
        = \<lparr>points = [\<lparr>px = - 50, py = 360\<rparr>, \<lparr>px = 1250, py = 360\<rparr>], width = 8, main = True\<rparr>
   \<and> grid_roads (createFixedRoadGrid 1200 1200) ! (12 + 1)
        = \<lparr>points = [\<lparr>px = 240, py = - 50\<rparr>, \<lparr>px = 240, py = 1250\<rparr>], width = 2.5, main = False\<rparr>
   \<and> distinct (map points (grid_roads (createFixedRoadGrid 1200 1200)))"
proof -
  note t = road_grid_structure [of 1200 1200]
  have i3: "(3::nat) \<in> {..<12}" and i1: "(1::nat) \<in> {..<8}" and pos: "(0::real) < 1200"
    by simp_all
  have h: "grid_roads (createFixedRoadGrid 1200 1200) ! 3
      = horizontal_road 1200 1200 (grid_hYs (createFixedRoadGrid 1200 1200) ! 3) 3"
    using t i3 by blast
  have v: "grid_roads (createFixedRoadGrid 1200 1200) ! (12 + 1)
      = vertical_road 1200 1200 (grid_vXs (createFixedRoadGrid 1200 1200) ! 1) 1"
    using t i1 by blast
  have d: "distinct (map points (grid_roads (createFixedRoadGrid 1200 1200)))"
    using t pos by blast
  have h': "horizontal_road 1200 1200 (grid_hYs (createFixedRoadGrid 1200 1200) ! 3) 3
      = \<lparr>points = [\<lparr>px = - 50, py = 360\<rparr>, \<lparr>px = 1250, py = 360\<rparr>], width = 8, main = True\<rparr>"
    by (simp add: grid_lines horizontal_road_def)
  have v': "vertical_road 1200 1200 (grid_vXs (createFixedRoadGrid 1200 1200) ! 1) 1
      = \<lparr>points = [\<lparr>px = 240, py = - 50\<rparr>, \<lparr>px = 240, py = 1250\<rparr>], width = 2.5, main = False\<rparr>"
    by (simp add: grid_lines vertical_road_def)
  from h v d h' v' i3 i1 pos show ?thesis
    by simp
qed

section \<open>Properties of the camera\<close>

lemma updateMapTransform_keeps:
  "gpsBaseLatLng (updateMapTransform st) = gpsBaseLatLng st"
  "gpsOffsetX (updateMapTransform st) = gpsOffsetX st"
  "gpsOffsetY (updateMapTransform st) = gpsOffsetY st"
  "currentCarPos (updateMapTransform st) = currentCarPos st"
  "screenW (updateMapTransform st) = screenW st"
  "screenH (updateMapTransform st) = screenH st"
  "mapTransformEl (updateMapTransform st) = mapTransformEl st"
  by (simp_all add: updateMapTransform_def Let_def split: option.splits element_ref.splits)



lemma clamp_bounds:
  "- 100 \<le> max (- 100) (min 100 (a::real))" "max (- 100) (min 100 (a::real)) \<le> 100"
  "- 150 \<le> max (- 150) (min 150 (a::real))" "max (- 150) (min 150 (a::real)) \<le> 150"
  by simp_all

lemma watchPosition_success_offsets:
  "gpsBaseLatLng st = Some base \<Longrightarrow>
     gpsOffsetX (watchPosition_success lat lng st) = max (- 100) (min 100 (fst (raw_drift base lat lng)))
   \<and> gpsOffsetY (watchPosition_success lat lng st) = max (- 150) (min 150 (snd (raw_drift base lat lng)))"
  by (simp add: watchPosition_success_def raw_drift_def Let_def updateMapTransform_keeps)

lemma watchPosition_success_in_bounds:
  "drift_in_bounds st \<Longrightarrow> drift_in_bounds (watchPosition_success lat lng st)"
proof (cases "gpsBaseLatLng st")
  case None
  assume "drift_in_bounds st"
  with None show ?thesis
    by (simp add: watchPosition_success_def drift_in_bounds_def)
next
  case (Some base)
  from watchPosition_success_offsets [OF Some, of lat lng] show ?thesis
    unfolding drift_in_bounds_def by (simp only: clamp_bounds simp_thms)
qed

lemma updates_in_bounds:
  "drift_in_bounds st \<Longrightarrow>
     drift_in_bounds (fold (\<lambda>(lat, lng). watchPosition_success lat lng) positions st)"
  by (induction positions arbitrary: st) (auto simp: watchPosition_success_in_bounds)

text \<open>
  C7. A position update, once a baseline is set, stores the raw offset clamped
  componentwise, x to \<open>[-100, 100]\<close> and y to \<open>[-150, 150]\<close>; a raw offset of
  \<open>(500, -900)\<close> is stored as \<open>(100, -150)\<close>; and after any sequence of position updates
  from a state whose offset is within the bounds (as the initial one is) the stored
  offset is within the bounds.
\<close>

theorem drift_clamped:
  "(gpsBaseLatLng st = Some base \<longrightarrow>
      gpsOffsetX (watchPosition_success lat lng st) = max (- 100) (min 100 (fst (raw_drift base lat lng)))
    \<and> gpsOffsetY (watchPosition_success lat lng st) = max (- 150) (min 150 (snd (raw_drift base lat lng))))
   \<and> (gpsBaseLatLng st = Some base \<and> raw_drift base lat lng = (500, - 900) \<longrightarrow>
      gpsOffsetX (watchPosition_success lat lng st) = 100
    \<and> gpsOffsetY (watchPosition_success lat lng st) = - 150)
   \<and> (drift_in_bounds st \<longrightarrow>
      drift_in_bounds (fold (\<lambda>(lat, lng). watchPosition_success lat lng) positions st))"
proof (intro conjI impI)
  assume b: "gpsBaseLatLng st = Some base"
  from watchPosition_success_offsets [OF b, of lat lng]
  show "gpsOffsetX (watchPosition_success lat lng st) = max (- 100) (min 100 (fst (raw_drift base lat lng)))"
    and "gpsOffsetY (watchPosition_success lat lng st) = max (- 150) (min 150 (snd (raw_drift base lat lng)))"
    by simp_all
next
  assume b: "gpsBaseLatLng st = Some base \<and> raw_drift base lat lng = (500, - 900)"
  then have b1: "gpsBaseLatLng st = Some base" and r: "raw_drift base lat lng = (500, - 900)"
    by simp_all
  from watchPosition_success_offsets [OF b1, of lat lng] r
  show "gpsOffsetX (watchPosition_success lat lng st) = 100"
    and "gpsOffsetY (watchPosition_success lat lng st) = - 150"
    by simp_all
next
  assume "drift_in_bounds st"
  then show "drift_in_bounds (fold (\<lambda>(lat, lng). watchPosition_success lat lng) positions st)"
    by (rule updates_in_bounds)
qed

theorem drift_clamped_witness:
  "raw_drift \<lparr>base_lat = - (300 / 111320), base_lng = 0\<rparr> 0 (500 / 333960) = (500, - 900)
   \<and> gpsOffsetX (watchPosition_success 0 (500 / 333960)
        ((initial_state (new_canvas ([] :: (draw_op \<times> gstate) list)))
           \<lparr>gpsBaseLatLng := Some \<lparr>base_lat = - (300 / 111320), base_lng = 0\<rparr>\<rparr>)) = 100
   \<and> gpsOffsetY (watchPosition_success 0 (500 / 333960)
        ((initial_state (new_canvas ([] :: (draw_op \<times> gstate) list)))
           \<lparr>gpsBaseLatLng := Some \<lparr>base_lat = - (300 / 111320), base_lng = 0\<rparr>\<rparr>)) = - 150
   \<and> drift_in_bounds (initial_state (new_canvas ([] :: (draw_op \<times> gstate) list)))
   \<and> drift_in_bounds (fold (\<lambda>(lat, lng). watchPosition_success lat lng) [(19, 72.8), (19.01, 72.9), (25, 80)]
        (initial_state (new_canvas ([] :: (draw_op \<times> gstate) list))))"
proof -
  let ?base = "\<lparr>base_lat = - (300 / 111320), base_lng = 0\<rparr>"
  let ?ini = "initial_state (new_canvas ([] :: (draw_op \<times> gstate) list))"
  let ?st = "?ini\<lparr>gpsBaseLatLng := Some ?base\<rparr>"
  have b: "gpsBaseLatLng ?st = Some ?base"
    by simp
  have r: "raw_drift ?base 0 (500 / 333960) = (500, - 900)"
    by (simp add: raw_drift_def)
  have i: "drift_in_bounds ?ini"
    by (simp add: drift_in_bounds_def initial_state_def)
  note t = drift_clamped [of ?st ?base 0 "500 / 333960"]
  note u = drift_clamped [of ?ini ?base 0 0 "[(19, 72.8), (19.01, 72.9), (25, 80)]"]
  from t b r have "gpsOffsetX (watchPosition_success 0 (500 / 333960) ?st) = 100
    \<and> gpsOffsetY (watchPosition_success 0 (500 / 333960) ?st) = - 150"
    by blast
  moreover from u i have "drift_in_bounds (fold (\<lambda>(lat, lng). watchPosition_success lat lng)
      [(19, 72.8), (19.01, 72.9), (25, 80)] ?ini)"
    by blast
  ultimately show ?thesis
    using r i by blast
qed

section \<open>Properties of the drawing\<close>

lemma draw_road_returns:
  "points r \<noteq> [] \<Longrightarrow> \<exists>c'. draw_road P r c = Inr c'"
  by (cases "points r") (simp_all add: draw_road_def Let_def)

lemma draw_roads_returns:
  "\<forall>r \<in> set roads. points r \<noteq> [] \<Longrightarrow> \<exists>c'. draw_roads P roads c = Inr c'"
proof (induction roads arbitrary: c)
  case Nil
  show ?case by simp
next
  case (Cons r roads)
  then have "points r \<noteq> []" by simp
  then obtain c1 where c1: "draw_road P r c = Inr c1"
    using draw_road_returns by blast
  from Cons obtain c2 where "draw_roads P roads c1 = Inr c2"
    by fastforce
  with c1 show ?case by simp
qed

lemma draw_route_returns:
  "route_opt \<noteq> Some [] \<Longrightarrow> \<exists>c'. draw_route P route_opt c = Inr c'"
  by (auto simp: draw_route_def Let_def split: option.splits list.splits)

lemma drawMap_returns:
  assumes "\<forall>r \<in> set roads. points r \<noteq> []" and "route opts \<noteq> Some []"
  shows "\<exists>c'. drawMap P c mapW mapH roads buildings opts = Inr c'"
proof -
  define c0 where "c0 =
    (let ctx = clearRect P 0 0 mapW mapH c;
         ctx = ctx\<lparr>fillStyle := Color ''#0d1520''\<rparr>;
         ctx = fillRect P 0 0 mapW mapH ctx;
         ctx = (if showWater opts
                then (let ctx = ctx\<lparr>fillStyle := Color ''rgba(8, 25, 50, 0.5)''\<rparr>;
                          ctx = beginPath ctx;
                          ctx = ellipse (mapW + 60) (mapH * 0.5) 180 500 0 0 (pi * 2) ctx
                      in fill P ctx)
                else ctx);
         ctx = fold (draw_building P) buildings ctx
     in (case parks opts of None \<Rightarrow> ctx | Some ps \<Rightarrow> fold (draw_park P) ps ctx))"
  obtain c1 where c1: "draw_roads P roads c0 = Inr c1"
    using draw_roads_returns [OF assms(1)] by blast
  obtain c2 where c2: "draw_route P (route opts) c1 = Inr c2"
    using draw_route_returns [OF assms(2)] by blast
  show ?thesis
    using c1 c2 unfolding drawMap_def c0_def Let_def by simp
qed

lemma grid_roads_have_points:
  "\<forall>r \<in> set (grid_roads (createFixedRoadGrid mapW mapH)). points r \<noteq> []"
  by (simp add: createFixedRoadGrid_def Let_def)

lemma buildGridRoute_nonempty: "buildGridRoute sx sy ex ey hYs vXs mapW mapH \<noteq> []"
  by (simp add: buildGridRoute_def Let_def)

text \<open>
  C9. Whatever the state before, \<open>renderNavRoute\<close> returns (the drawing does not throw:
  every road of the grid has points and the route is not empty), and afterwards the
  tracked position is the start of the new route, the drift offset is \<open>(0, 0)\<close> and
  the drift baseline is cleared.
\<close>

theorem render_resets_camera:
  "\<exists>st'. renderNavRoute P blank env routeStart routeEnd lbls st = Inr st'
        \<and> currentCarPos st' = routeStart
        \<and> gpsOffsetX st' = 0 \<and> gpsOffsetY st' = 0
        \<and> gpsBaseLatLng st' = None"
proof -
  define dpr where "dpr = (case devicePixelRatio env of None \<Rightarrow> 1 | Some d \<Rightarrow> if d = 0 then 1 else d)"
  define st1 where "st1 =
    (let st = st\<lparr>screenW := Some (parent_clientWidth env)\<rparr>;
         st = st\<lparr>screenH := Some (parent_clientHeight env)\<rparr>;
         st = st\<lparr>mapCanvas := set_canvas_width blank (MAP_SCALE * dpr) (mapCanvas st)\<rparr>;
         st = st\<lparr>mapCanvas := set_canvas_height blank (MAP_SCALE * dpr) (mapCanvas st)\<rparr>;
         st = st\<lparr>mapCanvas := (mapCanvas st)\<lparr>style_width := Some MAP_SCALE\<rparr>\<rparr>;
         st = st\<lparr>mapCanvas := (mapCanvas st)\<lparr>style_height := Some MAP_SCALE\<rparr>\<rparr>;
         st = st\<lparr>navCtx := Some MapCanvas\<rparr>
     in st\<lparr>mapCanvas := (mapCanvas st)
                 \<lparr>canvas_ctx := scale_ctx dpr dpr (canvas_ctx (mapCanvas st))\<rparr>\<rparr>)"
  define opts where "opts =
     \<lparr>showWater = True,
      parks = Some [\<lparr>park_x = MAP_SCALE * 0.25, park_y = MAP_SCALE * 0.35, park_r = 30\<rparr>,
                    \<lparr>park_x = MAP_SCALE * 0.7, park_y = MAP_SCALE * 0.55, park_r = 25\<rparr>],
      route = Some (buildGridRoute (px routeStart) (py routeStart) (px routeEnd) (py routeEnd)
                   (grid_hYs (createFixedRoadGrid MAP_SCALE MAP_SCALE))
                   (grid_vXs (createFixedRoadGrid MAP_SCALE MAP_SCALE)) MAP_SCALE MAP_SCALE),
      dropPin = Some routeEnd,
      pickupPin = None,
      labels = lbls\<rparr>"
  have "route opts \<noteq> Some []"
    by (simp add: opts_def buildGridRoute_nonempty)
  then obtain ctx where ctx: "drawMap P (canvas_ctx (mapCanvas st1)) MAP_SCALE MAP_SCALE
      (grid_roads (createFixedRoadGrid MAP_SCALE MAP_SCALE))
      (createFixedBuildings MAP_SCALE MAP_SCALE 77) opts = Inr ctx"
    using drawMap_returns [OF grid_roads_have_points] by blast
  show ?thesis
    unfolding renderNavRoute_def Let_def
    using ctx unfolding st1_def opts_def dpr_def Let_def
    by (simp add: updateMapTransform_keeps)
qed

lemma truncate_surface [simp]: "gstate.truncate (ctx\<lparr>surface := s\<rparr>) = gstate.truncate ctx"
  by (simp add: gstate.truncate_def)








end
